theory Spec2Isabelle
  imports Main
begin

section \<open>Text and byte strings\<close>

text \<open>
  A Python \<open>str\<close> is a sequence of Unicode code points and is modelled as a list of
  naturals; a Python \<open>bytes\<close> value is a sequence of 8-bit bytes and is modelled as an
  Isabelle \<open>string\<close>, whose characters are exactly the 256 byte values.
\<close>

type_synonym ustr = "nat list"
type_synonym bytes = "string"

definition text_of :: "string \<Rightarrow> ustr" where
  \<comment> \<open>the text whose code points are the given bytes; used to write ASCII literals\<close>
  "text_of s = map of_char s"

definition is_ascii :: "ustr \<Rightarrow> bool" where
  "is_ascii s = list_all (\<lambda>c. c < 128) s"

definition ascii_bytes :: "bytes \<Rightarrow> bool" where
  "ascii_bytes b = list_all (\<lambda>c. (of_char c :: nat) < 128) b"

text \<open>Decimal digits of a natural number, as code points (\<open>48\<close> is the digit zero).\<close>

function decimal :: "nat \<Rightarrow> ustr" where
  "decimal n = (if n < 10 then [48 + n] else decimal (n div 10) @ [48 + n mod 10])"
  by pat_completeness auto
termination
  by (relation "measure id") auto

declare decimal.simps [simp del]

text \<open>
  \<open>x.encode('ascii', 'xmlcharrefreplace')\<close>: a code point below 128 becomes its byte, any
  other code point \<open>c\<close> becomes the bytes of \<open>&#\<close>, the decimal digits of \<open>c\<close> and \<open>;\<close>.
\<close>

definition encode_char :: "nat \<Rightarrow> bytes" where
  "encode_char c =
     (if c < 128 then [char_of c] else ''&#'' @ map char_of (decimal c) @ '';'')"

definition encode_xmlcharrefreplace :: "ustr \<Rightarrow> bytes" where
  "encode_xmlcharrefreplace s = concat (map encode_char s)"

text \<open>
  \<open>x.decode('ascii', 'ignore')\<close> drops every byte outside the 7-bit range; the strict
  ASCII codecs that numpy applies when it converts between byte strings and text fail
  on the first such byte or code point.
\<close>

datatype exc =
    ValueError string
  | TypeError
  | AttributeError
  | IndexError
  | UnicodeEncodeError
  | UnicodeDecodeError

definition decode_ascii_ignore :: "bytes \<Rightarrow> ustr" where
  "decode_ascii_ignore b = map of_char (filter (\<lambda>c. (of_char c :: nat) < 128) b)"

definition decode_ascii_strict :: "bytes \<Rightarrow> exc + ustr" where
  "decode_ascii_strict b =
     (if ascii_bytes b then Inr (map of_char b) else Inl UnicodeDecodeError)"

definition encode_ascii_strict :: "ustr \<Rightarrow> exc + bytes" where
  "encode_ascii_strict s =
     (if is_ascii s then Inr (map char_of s) else Inl UnicodeEncodeError)"

text \<open>\<open>b.replace(b'\xc2\xa0', b'')\<close>: every occurrence of the two bytes is removed, left to right.\<close>

fun replace_nbsp :: "bytes \<Rightarrow> bytes" where
  "replace_nbsp (c # d # r) =
     (if (of_char c :: nat) = 194 \<and> (of_char d :: nat) = 160 then replace_nbsp r
      else c # replace_nbsp (d # r))"
| "replace_nbsp r = r"

text \<open>
  A fixed-width numpy string cell is padded with NUL up to the width of the array, and
  reading a cell drops the trailing NULs: a stored string never ends with NUL.
\<close>

definition rstrip_nul :: "nat list \<Rightarrow> nat list" where
  "rstrip_nul s = rev (dropWhile (\<lambda>c. c = 0) (rev s))"

definition rstrip_nul_bytes :: "bytes \<Rightarrow> bytes" where
  "rstrip_nul_bytes b = rev (dropWhile (\<lambda>c. (of_char c :: nat) = 0) (rev b))"

definition ends_with_nul :: "ustr \<Rightarrow> bool" where
  "ends_with_nul s = (s \<noteq> [] \<and> last s = 0)"

section \<open>The library function \<open>html.unescape\<close>\<close>

text \<open>
  CPython's \<open>html.unescape\<close> returns its argument when it has no \<open>&\<close>, and otherwise
  substitutes every match of the pattern
  \<^verbatim>\<open>&(#[0-9]+;?|#[xX][0-9a-fA-F]+;?|[^\t\n\f <&#;]{1,32};?)\<close>
  by \<open>_replace_charref\<close> of the group. The table \<open>html.entities.html5\<close> of named
  references (2231 entries) is a parameter \<open>h\<close> of the model; the two small tables of
  the module are written out. The number of a numeric reference is read without a bound
  on its length, as \<open>int\<close> does in the CPython releases before 3.11. From 3.11 on, \<open>int\<close>
  raises \<open>ValueError\<close> on a decimal string of more than 4300 digits, so that
  \<open>html.unescape\<close> raises on a decimal reference that long; the model has no such limit,
  and no statement below is about a reference of that length.
\<close>

definition is_digit :: "nat \<Rightarrow> bool" where
  "is_digit c = (48 \<le> c \<and> c \<le> 57)"

definition is_hexdigit :: "nat \<Rightarrow> bool" where
  "is_hexdigit c = (is_digit c \<or> (97 \<le> c \<and> c \<le> 102) \<or> (65 \<le> c \<and> c \<le> 70))"

definition is_name_char :: "nat \<Rightarrow> bool" where
  \<comment> \<open>the class \<^verbatim>\<open>[^\t\n\f <&#;]\<close>\<close>
  "is_name_char c = (c \<notin> {9, 10, 12, 32, 60, 38, 35, 59})"

definition opt_semicolon :: "ustr \<Rightarrow> ustr" where
  \<comment> \<open>what \<^verbatim>\<open>;?\<close> matches at the head of the rest\<close>
  "opt_semicolon r = (case r of c # _ \<Rightarrow> if c = 59 then [59] else [] | [] \<Rightarrow> [])"

definition match_run :: "(nat \<Rightarrow> bool) \<Rightarrow> ustr \<Rightarrow> ustr option" where
  \<comment> \<open>a greedy, non-empty run of the class followed by an optional semicolon\<close>
  "match_run p r =
     (let run = takeWhile p r
      in if run = [] then None else Some (run @ opt_semicolon (drop (length run) r)))"

definition charref_match :: "ustr \<Rightarrow> ustr option" where
  \<comment> \<open>the group matched right after an ampersand: the alternatives, in the pattern's order\<close>
  "charref_match r =
     (case (case r of c # r1 \<Rightarrow> if c = 35 then map_option (\<lambda>g. 35 # g) (match_run is_digit r1) else None
                    | [] \<Rightarrow> None) of
        Some g \<Rightarrow> Some g
      | None \<Rightarrow>
         (case (case r of c # x # r2 \<Rightarrow>
                    if c = 35 \<and> (x = 120 \<or> x = 88)
                    then map_option (\<lambda>g. 35 # x # g) (match_run is_hexdigit r2) else None
                  | _ \<Rightarrow> None) of
            Some g \<Rightarrow> Some g
          | None \<Rightarrow>
             (let run = takeWhile is_name_char (take 32 r)
              in if run = [] then None
                 else Some (run @ opt_semicolon (drop (length run) r)))))"

definition rstrip_semicolon :: "ustr \<Rightarrow> ustr" where
  "rstrip_semicolon s = rev (dropWhile (\<lambda>c. c = 59) (rev s))"

definition hexval :: "nat \<Rightarrow> nat" where
  "hexval c = (if is_digit c then c - 48 else if 97 \<le> c then c - 87 else c - 55)"

definition parse_int :: "nat \<Rightarrow> ustr \<Rightarrow> nat" where
  \<comment> \<open>\<open>int(s, base)\<close> of a string of digits of that base\<close>
  "parse_int base s = foldl (\<lambda>a c. base * a + hexval c) 0 s"

definition invalid_charrefs :: "(nat \<times> ustr) list" where
  "invalid_charrefs =
     [(0, [65533]), (13, [13]), (128, [8364]), (129, [129]), (130, [8218]), (131, [402]),
      (132, [8222]), (133, [8230]), (134, [8224]), (135, [8225]), (136, [710]),
      (137, [8240]), (138, [352]), (139, [8249]), (140, [338]), (141, [141]), (142, [381]),
      (143, [143]), (144, [144]), (145, [8216]), (146, [8217]), (147, [8220]),
      (148, [8221]), (149, [8226]), (150, [8211]), (151, [8212]), (152, [732]),
      (153, [8482]), (154, [353]), (155, [8250]), (156, [339]), (157, [157]), (158, [382]),
      (159, [376])]"

definition invalid_codepoint :: "nat \<Rightarrow> bool" where
  "invalid_codepoint n =
     ((1 \<le> n \<and> n \<le> 8) \<or> (14 \<le> n \<and> n \<le> 31) \<or> (127 \<le> n \<and> n \<le> 159)
      \<or> (64976 \<le> n \<and> n \<le> 65007) \<or> n = 11
      \<or> (n \<le> 1114111 \<and> (n mod 65536 = 65534 \<or> n mod 65536 = 65535)))"

definition numeric_charref :: "nat \<Rightarrow> ustr" where
  "numeric_charref num =
     (case map_of invalid_charrefs num of
        Some s \<Rightarrow> s
      | None \<Rightarrow>
         if (55296 \<le> num \<and> num \<le> 57343) \<or> num > 1114111 then [65533]
         else if invalid_codepoint num then []
         else [num])"

fun longest_prefix :: "(ustr \<Rightarrow> ustr option) \<Rightarrow> ustr \<Rightarrow> nat \<Rightarrow> ustr" where
  \<comment> \<open>the loop \<open>for x in range(len(s)-1, 1, -1)\<close> and its \<open>else\<close>, entered with \<open>x = len(s) - 1\<close>\<close>
  "longest_prefix h s x =
     (if x \<le> 1 then 38 # s
      else (case h (take x s) of
              Some v \<Rightarrow> v @ drop x s
            | None \<Rightarrow> longest_prefix h s (x - 1)))"

declare longest_prefix.simps [simp del]

definition replace_charref :: "(ustr \<Rightarrow> ustr option) \<Rightarrow> ustr \<Rightarrow> ustr" where
  "replace_charref h s =
     (case s of
        [] \<Rightarrow> [38]
      | c # r \<Rightarrow>
         if c = 35 then
           (case r of
              x # r' \<Rightarrow>
                if x = 120 \<or> x = 88 then numeric_charref (parse_int 16 (rstrip_semicolon r'))
                else numeric_charref (parse_int 10 (rstrip_semicolon r))
            | [] \<Rightarrow> numeric_charref (parse_int 10 []))
         else (case h s of
                 Some v \<Rightarrow> v
               | None \<Rightarrow> longest_prefix h s (length s - 1)))"

fun charref_sub :: "(ustr \<Rightarrow> ustr option) \<Rightarrow> ustr \<Rightarrow> ustr" where
  "charref_sub h [] = []"
| "charref_sub h (c # r) =
     (if c = 38 then
        (case charref_match r of
           Some g \<Rightarrow> replace_charref h g @ charref_sub h (drop (length g) r)
         | None \<Rightarrow> c # charref_sub h r)
      else c # charref_sub h r)"

definition html_unescape :: "(ustr \<Rightarrow> ustr option) \<Rightarrow> ustr \<Rightarrow> ustr" where
  "html_unescape h s = (if 38 \<notin> set s then s else charref_sub h s)"

section \<open>Python objects and numpy arrays\<close>

text \<open>
  The program never computes with a float or a complex number: it passes them through
  or prints them. A float is therefore represented by its \<open>repr\<close> (the shortest decimal
  string that reads back as the same double, which is also its \<open>str\<close>), a complex
  number by its \<open>str\<close>. \<open>NpBytes\<close> is a \<open>numpy.bytes_\<close> scalar, which the source tells
  apart from a Python \<open>bytes\<close> object; \<open>numpy.str_\<close> is a subclass of \<open>str\<close> that the source
  treats like \<open>str\<close> everywhere, and a numeric numpy scalar is identified with the Python
  number of the same value. \<open>PyObject t s\<close> is any other object, one that numpy stores
  as an opaque Python object and that \<open>numpy.isscalar\<close> does not take for a scalar (a
  dictionary, a set, a generator): \<open>t\<close> is the name of its type and \<open>s\<close> its \<open>str\<close>.
\<close>

datatype pyobj =
    PyBool bool
  | PyInt int
  | PyFloat string
  | PyComplex string
  | PyStr ustr
  | PyBytes bytes
  | NpBytes bytes
  | PyNone
  | PyObject string ustr

datatype int_dtype = Int8 | Int16 | Int32 | Int64 | UInt8 | UInt16 | UInt32 | UInt64

text \<open>
  The cells of an array, in row-major order, tagged by the kind of the dtype: \<open>bool\<close>,
  an integer dtype, floating, complex, byte string (\<open>S\<close>), unicode text (\<open>U\<close>), \<open>object\<close>,
  and any other dtype (datetime, timedelta, void) with the name of the dtype and the
  printed form of each cell. The width of an \<open>S\<close> or \<open>U\<close> dtype is the length of the
  longest cell and is not stored.
\<close>

datatype cells =
    BoolCells "bool list"
  | IntCells int_dtype "int list"
  | FloatCells "string list"
  | ComplexCells "string list"
  | BytesCells "bytes list"
  | StrCells "ustr list"
  | ObjectCells "pyobj list"
  | OtherCells string "string list"

record ndarray =
  shape :: "nat list"
  cells :: cells

text \<open>A \<open>numpy.matrix\<close> is always two-dimensional.\<close>

record matrix =
  nrows :: nat
  ncols :: nat
  mcells :: cells

datatype "value" =
    Obj pyobj
  | PyList "pyobj list"
  | PyTuple "pyobj list"
  | NDArray ndarray

text \<open>
  A scipy sparse container holds numbers only: booleans, integers, floats or complex
  numbers. It is represented by its dense cells, in row-major order. A sparse matrix is
  two-dimensional and its \<open>todense()\<close> is a \<open>numpy.matrix\<close>; the \<open>todense()\<close> of a sparse
  array is an \<open>ndarray\<close> of the shape of the array.
\<close>

datatype numcells =
    NumBool "bool list"
  | NumInt int_dtype "int list"
  | NumFloat "string list"
  | NumComplex "string list"

fun dense_cells :: "numcells \<Rightarrow> cells" where
  "dense_cells (NumBool bs) = BoolCells bs"
| "dense_cells (NumInt d ns) = IntCells d ns"
| "dense_cells (NumFloat fs) = FloatCells fs"
| "dense_cells (NumComplex cs) = ComplexCells cs"

record sparse =
  srows :: nat
  scols :: nat
  sdata :: numcells

datatype arraylike =
    Val "value"
  | Matrix matrix
  | SparseMatrix sparse
  | SparseArray "nat list" numcells

text \<open>
  What the model takes from the libraries without computing it: the table of named
  character references, the conversions of Python numbers to doubles and complex
  numbers that \<open>numpy.array\<close> performs on a list of mixed numbers, the printed forms of
  arrays and matrices, and the printed forms of the rows that iterating a sparse
  container yields.
\<close>

record lib =
  html5 :: "ustr \<Rightarrow> ustr option"
  float_of_int :: "int \<Rightarrow> string"
  complex_of_int :: "int \<Rightarrow> string"
  complex_of_float :: "string \<Rightarrow> string"
  array_str :: "ndarray \<Rightarrow> ustr"
  matrix_str :: "matrix \<Rightarrow> ustr"
  sparse_strs :: "arraylike \<Rightarrow> ustr list"

datatype log_record = Debug "string list"

subsection \<open>\<open>str\<close>, \<open>type\<close> and \<open>numpy.isscalar\<close>\<close>

definition hexdigit :: "nat \<Rightarrow> nat" where
  "hexdigit d = (if d < 10 then 48 + d else 87 + d)"

definition repr_byte :: "nat \<Rightarrow> nat \<Rightarrow> ustr" where
  "repr_byte q c =
     (if c = q \<or> c = 92 then [92, c]
      else if c = 9 then [92, 116]
      else if c = 10 then [92, 110]
      else if c = 13 then [92, 114]
      else if c < 32 \<or> 127 \<le> c then [92, 120, hexdigit (c div 16), hexdigit (c mod 16)]
      else [c])"

definition bytes_repr :: "bytes \<Rightarrow> ustr" where
  "bytes_repr b =
     (let cs = map of_char b;
          q = (if 39 \<in> set cs \<and> 34 \<notin> set cs then 34 else 39)
      in [98, q] @ concat (map (repr_byte q) cs) @ [q])"

fun pystr :: "pyobj \<Rightarrow> ustr" where
  "pystr (PyBool b) = (if b then text_of ''True'' else text_of ''False'')"
| "pystr (PyInt n) = (if n < 0 then 45 # decimal (nat (- n)) else decimal (nat n))"
| "pystr (PyFloat f) = text_of f"
| "pystr (PyComplex c) = text_of c"
| "pystr (PyStr s) = s"
| "pystr (PyBytes b) = bytes_repr b"
| "pystr (NpBytes b) = bytes_repr b"
| "pystr PyNone = text_of ''None''"
| "pystr (PyObject t s) = s"

fun type_name :: "pyobj \<Rightarrow> string" where
  "type_name (PyBool b) = ''bool''"
| "type_name (PyInt n) = ''int''"
| "type_name (PyFloat f) = ''float''"
| "type_name (PyComplex c) = ''complex''"
| "type_name (PyStr s) = ''str''"
| "type_name (PyBytes b) = ''bytes''"
| "type_name (NpBytes b) = ''numpy.bytes_''"
| "type_name PyNone = ''NoneType''"
| "type_name (PyObject t s) = t"

fun isscalar_obj :: "pyobj \<Rightarrow> bool" where
  "isscalar_obj PyNone = False"
| "isscalar_obj (PyObject t s) = False"
| "isscalar_obj x = True"

fun np_isscalar :: "arraylike \<Rightarrow> bool" where
  "np_isscalar (Val (Obj x)) = isscalar_obj x"
| "np_isscalar a = False"

fun is_str :: "pyobj \<Rightarrow> bool" where
  "is_str (PyStr s) = True"
| "is_str x = False"

fun is_npbytes :: "pyobj \<Rightarrow> bool" where
  "is_npbytes (NpBytes b) = True"
| "is_npbytes x = False"

fun is_bytes :: "pyobj \<Rightarrow> bool" where
  "is_bytes (PyBytes b) = True"
| "is_bytes (NpBytes b) = True"
| "is_bytes x = False"

subsection \<open>Cells, items and indexing\<close>

fun items :: "cells \<Rightarrow> pyobj list" where
  \<comment> \<open>the cells as the scalars that indexing and iteration return\<close>
  "items (BoolCells bs) = map PyBool bs"
| "items (IntCells d ns) = map PyInt ns"
| "items (FloatCells fs) = map PyFloat fs"
| "items (ComplexCells cs) = map PyComplex cs"
| "items (BytesCells bs) = map (\<lambda>b. NpBytes (rstrip_nul_bytes b)) bs"
| "items (StrCells ss) = map (\<lambda>s. PyStr (rstrip_nul s)) ss"
| "items (ObjectCells xs) = xs"
| "items (OtherCells k vs) = map (\<lambda>v. PyObject k (text_of v)) vs"

definition sel :: "nat list \<Rightarrow> 'a list \<Rightarrow> 'a list" where
  \<comment> \<open>the cells at the given positions, in that order\<close>
  "sel idx xs = map (\<lambda>i. xs ! i) (filter (\<lambda>i. i < length xs) idx)"

fun pick :: "nat list \<Rightarrow> cells \<Rightarrow> cells" where
  "pick idx (BoolCells bs) = BoolCells (sel idx bs)"
| "pick idx (IntCells d ns) = IntCells d (sel idx ns)"
| "pick idx (FloatCells fs) = FloatCells (sel idx fs)"
| "pick idx (ComplexCells cs) = ComplexCells (sel idx cs)"
| "pick idx (BytesCells bs) = BytesCells (sel idx bs)"
| "pick idx (StrCells ss) = StrCells (sel idx ss)"
| "pick idx (ObjectCells xs) = ObjectCells (sel idx xs)"
| "pick idx (OtherCells k vs) = OtherCells k (sel idx vs)"

definition ncells :: "cells \<Rightarrow> nat" where
  "ncells c = length (items c)"

definition array1 :: "cells \<Rightarrow> ndarray" where
  \<comment> \<open>the one-dimensional array of the given cells\<close>
  "array1 c = \<lparr>shape = [ncells c], cells = c\<rparr>"

definition wf_matrix :: "matrix \<Rightarrow> bool" where
  "wf_matrix m = (ncells (mcells m) = nrows m * ncols m)"

definition sub_array :: "ndarray \<Rightarrow> nat \<Rightarrow> ndarray" where
  \<comment> \<open>\<open>a[i]\<close> of an array of two or more dimensions\<close>
  "sub_array a i =
     (let rest = tl (shape a); k = prod_list rest
      in \<lparr>shape = rest, cells = pick [i * k ..< (i + 1) * k] (cells a)\<rparr>)"

datatype elt = Scalar pyobj | SubArray ndarray

definition iter_ndarray :: "ndarray \<Rightarrow> exc + elt list" where
  \<comment> \<open>\<open>for x in a\<close>: a 0-d array cannot be iterated, a 1-d array yields its scalars, any
      other array yields its sub-arrays along the first axis\<close>
  "iter_ndarray a =
     (case shape a of
        [] \<Rightarrow> Inl TypeError
      | [n] \<Rightarrow> Inr (map Scalar (items (cells a)))
      | n # m # rest \<Rightarrow> Inr (map (\<lambda>i. SubArray (sub_array a i)) [0 ..< n]))"

fun elt_value :: "elt \<Rightarrow> value" where
  "elt_value (Scalar x) = Obj x"
| "elt_value (SubArray s) = NDArray s"

definition index0 :: "ndarray \<Rightarrow> exc + value" where
  \<comment> \<open>\<open>a[0]\<close>: an IndexError on a 0-d array and on an empty first axis\<close>
  "index0 a =
     (case iter_ndarray a of
        Inl e \<Rightarrow> Inl IndexError
      | Inr [] \<Rightarrow> Inl IndexError
      | Inr (x # xs) \<Rightarrow> Inr (elt_value x))"

fun getitem0 :: "value \<Rightarrow> exc + value" where
  \<comment> \<open>\<open>v[0]\<close> of an array or a list; of the values that are not subscriptable only
      \<open>None\<close> is ever indexed by the program\<close>
  "getitem0 (NDArray a) = index0 a"
| "getitem0 (PyList []) = Inl IndexError"
| "getitem0 (PyList (x # xs)) = Inr (Obj x)"
| "getitem0 (PyTuple []) = Inl IndexError"
| "getitem0 (PyTuple (x # xs)) = Inr (Obj x)"
| "getitem0 (Obj x) = Inl TypeError"

definition matrix_row0 :: "matrix \<Rightarrow> ndarray" where
  \<comment> \<open>\<open>np.array(a)[0, :]\<close>\<close>
  "matrix_row0 m = \<lparr>shape = [ncols m], cells = pick [0 ..< ncols m] (mcells m)\<rparr>"

definition matrix_col0 :: "matrix \<Rightarrow> ndarray" where
  \<comment> \<open>\<open>np.array(a)[:, 0]\<close>\<close>
  "matrix_col0 m =
     \<lparr>shape = [nrows m], cells = pick (map (\<lambda>i. i * ncols m) [0 ..< nrows m]) (mcells m)\<rparr>"

definition matrix_rows :: "matrix \<Rightarrow> matrix list" where
  \<comment> \<open>iterating a matrix yields its rows, each a matrix of one row\<close>
  "matrix_rows m =
     map (\<lambda>i. \<lparr>nrows = 1, ncols = ncols m,
                 mcells = pick [i * ncols m ..< (i + 1) * ncols m] (mcells m)\<rparr>)
         [0 ..< nrows m]"

subsection \<open>Building and converting arrays\<close>

fun sequence :: "('e + 'a) list \<Rightarrow> 'e + 'a list" where
  \<comment> \<open>the results of a comprehension whose element expression may raise\<close>
  "sequence [] = Inr []"
| "sequence (x # xs) =
     (case x of
        Inl e \<Rightarrow> Inl e
      | Inr v \<Rightarrow> (case sequence xs of Inl e \<Rightarrow> Inl e | Inr vs \<Rightarrow> Inr (v # vs)))"

fun to_text :: "pyobj \<Rightarrow> exc + ustr" where
  \<comment> \<open>what numpy stores in a \<open>U\<close> cell for a Python object: a byte string is decoded as
      strict ASCII, any other object is printed\<close>
  "to_text (PyBytes b) = decode_ascii_strict b"
| "to_text (NpBytes b) = decode_ascii_strict b"
| "to_text x = Inr (pystr x)"

fun to_bytes :: "pyobj \<Rightarrow> exc + bytes" where
  \<comment> \<open>what numpy stores in an \<open>S\<close> cell: a byte string as it is, any other object
      printed and encoded as strict ASCII\<close>
  "to_bytes (PyBytes b) = Inr b"
| "to_bytes (NpBytes b) = Inr b"
| "to_bytes x = encode_ascii_strict (pystr x)"

fun to_int :: "pyobj \<Rightarrow> int" where
  "to_int (PyInt n) = n"
| "to_int (PyBool b) = (if b then 1 else 0)"
| "to_int x = 0"

fun to_bool :: "pyobj \<Rightarrow> bool" where
  "to_bool (PyBool b) = b"
| "to_bool x = False"

fun to_float :: "lib \<Rightarrow> pyobj \<Rightarrow> string" where
  "to_float L (PyFloat f) = f"
| "to_float L x = float_of_int L (to_int x)"

fun to_complex :: "lib \<Rightarrow> pyobj \<Rightarrow> string" where
  "to_complex L (PyComplex c) = c"
| "to_complex L (PyFloat f) = complex_of_float L f"
| "to_complex L x = complex_of_int L (to_int x)"

fun is_object_elt :: "pyobj \<Rightarrow> bool" where
  \<comment> \<open>elements that make \<open>numpy.array\<close> fall back to the \<open>object\<close> dtype: \<open>None\<close>, an
      opaque object, an integer that fits neither \<open>int64\<close> nor \<open>uint64\<close>\<close>
  "is_object_elt PyNone = True"
| "is_object_elt (PyObject t s) = True"
| "is_object_elt (PyInt n) = (n < - (2 ^ 63) \<or> 2 ^ 64 \<le> n)"
| "is_object_elt x = False"

fun is_complex :: "pyobj \<Rightarrow> bool" where
  "is_complex (PyComplex c) = True"
| "is_complex x = False"

fun is_float :: "pyobj \<Rightarrow> bool" where
  "is_float (PyFloat f) = True"
| "is_float x = False"

fun is_int :: "pyobj \<Rightarrow> bool" where
  "is_int (PyInt n) = True"
| "is_int x = False"

text \<open>
  \<open>numpy.array(xs)\<close> of a list of scalars and opaque objects (a list that holds a
  sequence is not represented). The dtype is the common one: an empty list gives an
  empty \<open>float64\<close> array; an element that only \<open>object\<close> can hold makes an \<open>object\<close>
  array of the elements as they are; otherwise a text element makes a \<open>U\<close> array and a
  byte string an \<open>S\<close> array, the other elements being converted; otherwise the
  numbers are promoted to complex, floating, integer or bool.
\<close>

definition np_array :: "lib \<Rightarrow> pyobj list \<Rightarrow> exc + ndarray" where
  "np_array L xs =
     (if xs = [] then Inr (array1 (FloatCells []))
      else if list_ex is_object_elt xs then Inr (array1 (ObjectCells xs))
      else if list_ex is_str xs then
        (case sequence (map to_text xs) of
           Inl e \<Rightarrow> Inl e
         | Inr ss \<Rightarrow> Inr (array1 (StrCells ss)))
      else if list_ex is_bytes xs then
        (case sequence (map to_bytes xs) of
           Inl e \<Rightarrow> Inl e
         | Inr bs \<Rightarrow> Inr (array1 (BytesCells bs)))
      else if list_ex is_complex xs then Inr (array1 (ComplexCells (map (to_complex L) xs)))
      else if list_ex is_float xs then Inr (array1 (FloatCells (map (to_float L) xs)))
      else if list_ex is_int xs then
        (if list_all (\<lambda>x. to_int x < 2 ^ 63) xs
         then Inr (array1 (IntCells Int64 (map to_int xs)))
         else if list_all (\<lambda>x. 0 \<le> to_int x) xs
         then Inr (array1 (IntCells UInt64 (map to_int xs)))
         else Inr (array1 (FloatCells (map (to_float L) xs))))
      else Inr (array1 (BoolCells (map to_bool xs))))"

definition np_array_string :: "ustr list \<Rightarrow> exc + ndarray" where
  \<comment> \<open>\<open>np.array(ss, dtype="string_")\<close> of a list of texts\<close>
  "np_array_string ss =
     (case sequence (map encode_ascii_strict ss) of
        Inl e \<Rightarrow> Inl e
      | Inr bs \<Rightarrow> Inr (array1 (BytesCells bs)))"

fun elt_items :: "elt \<Rightarrow> pyobj list" where
  "elt_items (Scalar x) = [x]"
| "elt_items (SubArray s) = items (cells s)"

definition np_array_object :: "elt list \<Rightarrow> ndarray" where
  \<comment> \<open>\<open>np.array(es, dtype=object)\<close> of scalars, or of arrays of one shape, which are
      stacked along a new first axis\<close>
  "np_array_object es =
     \<lparr>shape = length es # (case es of SubArray s # _ \<Rightarrow> shape s | _ \<Rightarrow> []),
      cells = ObjectCells (concat (map elt_items es))\<rparr>"

definition astype_str :: "ndarray \<Rightarrow> exc + ndarray" where
  \<comment> \<open>\<open>a.astype(str)\<close>\<close>
  "astype_str a =
     (case sequence (map to_text (items (cells a))) of
        Inl e \<Rightarrow> Inl e
      | Inr ss \<Rightarrow> Inr (a\<lparr>cells := StrCells ss\<rparr>))"

definition astype_string :: "ndarray \<Rightarrow> exc + ndarray" where
  \<comment> \<open>\<open>a.astype("string_")\<close>\<close>
  "astype_string a =
     (case sequence (map to_bytes (items (cells a))) of
        Inl e \<Rightarrow> Inl e
      | Inr bs \<Rightarrow> Inr (a\<lparr>cells := BytesCells bs\<rparr>))"

fun astype_ubyte :: "cells \<Rightarrow> cells" where
  \<comment> \<open>\<open>astype('ubyte')\<close>, which the program applies to \<open>bool\<close> cells only\<close>
  "astype_ubyte (BoolCells bs) = IntCells UInt8 (map (\<lambda>b. if b then 1 else 0) bs)"
| "astype_ubyte (IntCells d ns) = IntCells UInt8 (map (\<lambda>n. n mod 256) ns)"
| "astype_ubyte c = c"

subsection \<open>\<open>numpy.issubdtype\<close>\<close>

datatype kind = KBool | KInt | KFloat | KComplex | KBytes | KStr | KObject | KOther

fun kind_of :: "cells \<Rightarrow> kind" where
  "kind_of (BoolCells bs) = KBool"
| "kind_of (IntCells d ns) = KInt"
| "kind_of (FloatCells fs) = KFloat"
| "kind_of (ComplexCells cs) = KComplex"
| "kind_of (BytesCells bs) = KBytes"
| "kind_of (StrCells ss) = KStr"
| "kind_of (ObjectCells xs) = KObject"
| "kind_of (OtherCells k vs) = KOther"

definition issubdtype :: "ndarray \<Rightarrow> kind set \<Rightarrow> bool" where
  \<comment> \<open>\<open>np.issubdtype(a.dtype, t)\<close>, the abstract type \<open>t\<close> given by the kinds below it:
      \<open>np.integer\<close> is \<open>{KInt}\<close>, \<open>np.character\<close> is \<open>{KBytes, KStr}\<close>\<close>
  "issubdtype a ks = (kind_of (cells a) \<in> ks)"

section \<open>The program\<close>

definition and_then :: "'e + 'a \<Rightarrow> ('a \<Rightarrow> 'e + 'b) \<Rightarrow> 'e + 'b" where
  \<comment> \<open>sequencing of two steps, the first of which may raise\<close>
  "and_then r f = (case r of Inl e \<Rightarrow> Inl e | Inr v \<Rightarrow> f v)"

fun elt_is_str :: "elt \<Rightarrow> bool" where
  \<comment> \<open>\<open>type(x) is str or type(x) is np.str_ or type(x) is np.unicode_\<close>\<close>
  "elt_is_str (Scalar x) = is_str x"
| "elt_is_str (SubArray s) = False"

fun elt_is_npbytes :: "elt \<Rightarrow> bool" where
  \<comment> \<open>\<open>type(x) is np.string_\<close>, and \<open>type(x) is np.bytes_\<close>, which is the same type\<close>
  "elt_is_npbytes (Scalar x) = is_npbytes x"
| "elt_is_npbytes (SubArray s) = False"

fun elt_str :: "lib \<Rightarrow> elt \<Rightarrow> ustr" where
  \<comment> \<open>\<open>str(x)\<close>\<close>
  "elt_str L (Scalar x) = pystr x"
| "elt_str L (SubArray s) = array_str L s"

fun elt_type :: "elt \<Rightarrow> string" where
  \<comment> \<open>\<open>str(type(x))\<close>\<close>
  "elt_type (Scalar x) = ''<class '' @ [CHR 39] @ type_name x @ [CHR 39] @ ''>''"
| "elt_type (SubArray s) = ''<class '' @ [CHR 39] @ ''numpy.ndarray'' @ [CHR 39] @ ''>''"

fun elt_encode :: "elt \<Rightarrow> exc + pyobj" where
  \<comment> \<open>\<open>x.encode('ascii', 'xmlcharrefreplace')\<close>: only text has the method\<close>
  "elt_encode (Scalar (PyStr s)) = Inr (PyBytes (encode_xmlcharrefreplace s))"
| "elt_encode x = Inl AttributeError"

fun elt_decode :: "elt \<Rightarrow> exc + pyobj" where
  \<comment> \<open>\<open>x.decode('ascii', 'ignore')\<close>: only byte strings have the method\<close>
  "elt_decode (Scalar (PyBytes b)) = Inr (PyStr (decode_ascii_ignore b))"
| "elt_decode (Scalar (NpBytes b)) = Inr (PyStr (decode_ascii_ignore b))"
| "elt_decode x = Inl AttributeError"

text \<open>
  \<open>normalize_attr_strings\<close> returns the array or the exception raised, together with
  the records it has passed to \<open>logging.debug\<close>. A record holds the list
  \<open>[str(type(x)) for x in a]\<close> that its message is formatted from.
\<close>

definition normalize_attr_strings :: "lib \<Rightarrow> ndarray \<Rightarrow> (exc + ndarray) \<times> log_record list" where
  "normalize_attr_strings L a =
     (if issubdtype a {KObject} then
        (case iter_ndarray a of
           Inl e \<Rightarrow> (Inl e, [])
         | Inr es \<Rightarrow>
            if list_all elt_is_str es then
              (and_then (sequence (map elt_encode es)) (np_array L), [])
            else if list_all elt_is_npbytes es \<or> list_all elt_is_npbytes es then
              (astype_string a, [])
            else
              (np_array_string (map (elt_str L) es), [Debug (map elt_type es)]))
      else if issubdtype a {KBytes} \<or> issubdtype a {KObject} then (Inr a, [])
      else if issubdtype a {KStr} \<or> issubdtype a {KStr} then
        (and_then (and_then (iter_ndarray a) (\<lambda>es. sequence (map elt_encode es))) (np_array L), [])
      else (Inl (ValueError ''String values must be object, ascii or unicode.''), []))"

fun todense :: "arraylike \<Rightarrow> arraylike" where
  \<comment> \<open>\<open>a.todense()\<close>: a \<open>numpy.matrix\<close> for a sparse matrix, an \<open>ndarray\<close> for a sparse array\<close>
  "todense (SparseMatrix s) =
     Matrix \<lparr>nrows = srows s, ncols = scols s, mcells = dense_cells (sdata s)\<rparr>"
| "todense (SparseArray sh d) = Val (NDArray \<lparr>shape = sh, cells = dense_cells d\<rparr>)"
| "todense a = a"

function normalize_attr_array :: "lib \<Rightarrow> arraylike \<Rightarrow> exc + ndarray" where
  "normalize_attr_array L (Val (NDArray a)) = Inr a"
| "normalize_attr_array L (Matrix m) =
     (if nrows m = 1 then Inr (matrix_row0 m)
      else if ncols m = 1 then Inr (matrix_col0 m)
      else Inl (ValueError ''Attribute values must be 1-dimensional.''))"
| "normalize_attr_array L (Val (PyList xs)) = np_array L xs"
| "normalize_attr_array L (Val (PyTuple xs)) = np_array L xs"
| "normalize_attr_array L (SparseMatrix s) = normalize_attr_array L (todense (SparseMatrix s))"
| "normalize_attr_array L (SparseArray sh d) = normalize_attr_array L (todense (SparseArray sh d))"
| "normalize_attr_array L (Val (Obj x)) =
     Inl (ValueError ''Argument must be a list, tuple, numpy matrix, numpy ndarray or sparse matrix.'')"
  by pat_completeness auto
termination
  by (relation "measure (\<lambda>(L, a). case a of SparseMatrix s \<Rightarrow> 1 | SparseArray sh d \<Rightarrow> 1 | _ \<Rightarrow> 0)")
     auto

fun iter_strs :: "lib \<Rightarrow> arraylike \<Rightarrow> exc + ustr list" where
  \<comment> \<open>\<open>[str(elm) for elm in a]\<close>: a list or tuple yields its elements, an array its
      scalars or sub-arrays, a matrix its rows, a sparse container its rows, in the
      printed forms that the environment gives\<close>
  "iter_strs L (Val (NDArray a)) = and_then (iter_ndarray a) (\<lambda>es. Inr (map (elt_str L) es))"
| "iter_strs L (Val (PyList xs)) = Inr (map pystr xs)"
| "iter_strs L (Val (PyTuple xs)) = Inr (map pystr xs)"
| "iter_strs L (Matrix m) = Inr (map (matrix_str L) (matrix_rows m))"
| "iter_strs L (SparseMatrix s) = Inr (sparse_strs L (SparseMatrix s))"
| "iter_strs L (SparseArray sh d) = Inr (sparse_strs L (SparseArray sh d))"
| "iter_strs L (Val (Obj x)) = Inl TypeError"

definition wrap_scalar :: "lib \<Rightarrow> arraylike \<Rightarrow> exc + arraylike" where
  \<comment> \<open>\<open>a = np.array([a])\<close> of a scalar \<open>a\<close>\<close>
  "wrap_scalar L a =
     (case a of
        Val (Obj x) \<Rightarrow> and_then (np_array L [x]) (\<lambda>r. Inr (Val (NDArray r)))
      | _ \<Rightarrow> Inr a)"

definition normalize_attr_values ::
    "lib \<Rightarrow> arraylike \<Rightarrow> bool \<Rightarrow> (exc + value) \<times> log_record list" where
  "normalize_attr_values L a0 use_object_strings =
     (let scalar = np_isscalar a0 in
      case (if scalar then wrap_scalar L a0 else Inr a0) of
        Inl e \<Rightarrow> (Inl e, [])
      | Inr a \<Rightarrow>
         (case normalize_attr_array L a of
            Inl e \<Rightarrow> (Inl e, [])
          | Inr arr \<Rightarrow>
             (case (if issubdtype arr {KInt} \<or> issubdtype arr {KFloat} then (Inr arr, [])
                    else if issubdtype arr {KBytes, KStr} \<or> issubdtype arr {KObject} then
                      (if use_object_strings then
                         (and_then (iter_strs L a)
                            (\<lambda>ss. Inr (np_array_object (map (\<lambda>s. Scalar (PyStr s)) ss))), [])
                       else normalize_attr_strings L arr)
                    else if issubdtype arr {KBool} then
                      (Inr (arr\<lparr>cells := astype_ubyte (cells arr)\<rparr>), [])
                    else (Inr arr, [])) of
                (Inl e, log) \<Rightarrow> (Inl e, log)
              | (Inr arr', log) \<Rightarrow>
                 if scalar then (index0 arr', log) else (Inr (NDArray arr'), log))))"

definition hasattr_decode :: "ndarray \<Rightarrow> bool" where
  \<comment> \<open>\<open>hasattr(a, "decode")\<close>: no array has the attribute\<close>
  "hasattr_decode a = False"

fun unescape_elt :: "lib \<Rightarrow> elt \<Rightarrow> exc + elt" where
  \<comment> \<open>\<open>html.unescape(x)\<close>. On a sub-array, \<open>'&' not in x\<close> asks whether no cell equals
      \<open>'&'\<close>; then the sub-array is returned as it is, else the substitution raises\<close>
  "unescape_elt L (Scalar (PyStr s)) = Inr (Scalar (PyStr (html_unescape (html5 L) s)))"
| "unescape_elt L (Scalar x) = Inl TypeError"
| "unescape_elt L (SubArray s) =
     (if PyStr [38] \<in> set (items (cells s)) then Inl TypeError else Inr (SubArray s))"

definition unescape_all :: "lib \<Rightarrow> ndarray \<Rightarrow> exc + ndarray" where
  \<comment> \<open>\<open>np.array([html.unescape(x) for x in temp.astype(str)], dtype=object)\<close>\<close>
  "unescape_all L temp =
     and_then (astype_str temp) (\<lambda>t.
     and_then (iter_ndarray t) (\<lambda>es.
     and_then (sequence (map (unescape_elt L) es)) (\<lambda>us. Inr (np_array_object us))))"

definition nbsp_hack :: "ndarray \<Rightarrow> exc + value option" where
  \<comment> \<open>the \<open>except\<close> clause: \<open>result\<close> is set only when \<open>a[0]\<close> is a numpy byte string\<close>
  "nbsp_hack a =
     (case index0 a of
        Inl e \<Rightarrow> Inl e
      | Inr (Obj (NpBytes b)) \<Rightarrow> Inr (Some (PyList [PyBytes (replace_nbsp b)]))
      | Inr v \<Rightarrow> Inr None)"

definition materialize_attr_values :: "lib \<Rightarrow> value \<Rightarrow> exc + value" where
  "materialize_attr_values L a0 =
     (let scalar = np_isscalar (Val a0) in
      case (if scalar then wrap_scalar L (Val a0) else Inr (Val a0)) of
        Inl e \<Rightarrow> Inl e
      | Inr (Val (NDArray a)) \<Rightarrow>
         (case (if issubdtype a {KBytes} \<or> issubdtype a {KObject} then
                  (case (if hasattr_decode a then
                           and_then (and_then (iter_ndarray a) (\<lambda>es. sequence (map elt_decode es)))
                             (np_array L)
                         else Inr a) of
                     Inl e \<Rightarrow> Inl e
                   | Inr temp \<Rightarrow>
                      (case unescape_all L temp of
                         Inr r \<Rightarrow> Inr (Some (NDArray r))
                       | Inl e \<Rightarrow> nbsp_hack a))
                else if issubdtype a {KStr} \<or> issubdtype a {KStr} then
                  and_then (astype_str a)
                    (\<lambda>t. Inr (Some (NDArray (t\<lparr>cells := ObjectCells (items (cells t))\<rparr>))))
                else Inr (Some (NDArray a))) of
            Inl e \<Rightarrow> Inl e
          | Inr result \<Rightarrow>
             if scalar then (case result of None \<Rightarrow> Inl TypeError | Some v \<Rightarrow> getitem0 v)
             else Inr (case result of None \<Rightarrow> Obj PyNone | Some v \<Rightarrow> v))
      | Inr v \<Rightarrow> Inl AttributeError)"

text \<open>
  An environment for the closed examples below. None of them reaches a named character
  reference, a number conversion or a printed array, so their values are the same in
  every environment.
\<close>

definition example_lib :: lib where
  "example_lib =
     \<lparr>html5 = (\<lambda>s. None), float_of_int = (\<lambda>n. []), complex_of_int = (\<lambda>n. []),
      complex_of_float = (\<lambda>f. []), array_str = (\<lambda>a. []), matrix_str = (\<lambda>m. []),
      sparse_strs = (\<lambda>a. [])\<rparr>"

section \<open>Evaluation rules\<close>

lemmas str_defs =
  text_of_def is_ascii_def ascii_bytes_def encode_char_def encode_xmlcharrefreplace_def
  decode_ascii_strict_def encode_ascii_strict_def rstrip_nul_def rstrip_nul_bytes_def
  char_of_eq_iff

lemmas html_defs =
  html_unescape_def charref_match_def match_run_def is_digit_def is_hexdigit_def
  is_name_char_def opt_semicolon_def replace_charref_def rstrip_semicolon_def parse_int_def
  hexval_def numeric_charref_def invalid_charrefs_def invalid_codepoint_def

lemmas np_defs =
  np_array_def array1_def ncells_def iter_ndarray_def index0_def np_array_string_def
  np_array_object_def astype_str_def astype_string_def issubdtype_def and_then_def

lemmas prog_defs =
  normalize_attr_values_def normalize_attr_strings_def wrap_scalar_def
  materialize_attr_values_def unescape_all_def nbsp_hack_def hasattr_decode_def

lemma decimal_233: "decimal 233 = [50, 51, 51]"
  by (simp add: decimal.simps)

section \<open>Escaping of a character outside ASCII\<close>

text \<open>
  Claim C2. Normalizing the one-element list of the text \<open>caf\<close> followed by the code
  point 233 (e with acute accent) gives the one-dimensional byte-string array whose
  element is \<open>caf&#233;\<close>: the decimal character reference stands in place of the
  character. Materializing that array gives the array of the original text.
\<close>

theorem escape_cafe:
  "normalize_attr_values L (Val (PyList [PyStr [99, 97, 102, 233]])) False
     = (Inr (NDArray \<lparr>shape = [1], cells = BytesCells [''caf&#233;'']\<rparr>), [])
   \<and> materialize_attr_values L (NDArray \<lparr>shape = [1], cells = BytesCells [''caf&#233;'']\<rparr>)
     = Inr (NDArray \<lparr>shape = [1], cells = ObjectCells [PyStr [99, 97, 102, 233]]\<rparr>)"
proof
  show "normalize_attr_values L (Val (PyList [PyStr [99, 97, 102, 233]])) False
     = (Inr (NDArray \<lparr>shape = [1], cells = BytesCells [''caf&#233;'']\<rparr>), [])"
    by (simp add: prog_defs np_defs str_defs decimal_233)
  show "materialize_attr_values L (NDArray \<lparr>shape = [1], cells = BytesCells [''caf&#233;'']\<rparr>)
     = Inr (NDArray \<lparr>shape = [1], cells = ObjectCells [PyStr [99, 97, 102, 233]]\<rparr>)"
    by (simp add: prog_defs np_defs str_defs html_defs)
qed

section \<open>Auxiliary facts\<close>

lemma sequence_Inr: "sequence (map (\<lambda>x. Inr (f x)) xs) = Inr (map f xs)"
  by (induction xs) auto

lemma rstrip_nul_idem: "rstrip_nul (rstrip_nul s) = rstrip_nul s"
  by (simp add: rstrip_nul_def)

lemma astype_str_text:
  "astype_str \<lparr>shape = sh, cells = StrCells ss\<rparr>
     = Inr \<lparr>shape = sh, cells = StrCells (map rstrip_nul ss)\<rparr>"
  by (simp add: astype_str_def comp_def sequence_Inr)

lemma sel_all: "sel [0 ..< length xs] xs = xs"
  by (simp add: sel_def map_nth)

lemma sel_all_stride1: "sel (map (\<lambda>i. i * Suc 0) [0 ..< length xs]) xs = xs"
  by (simp add: sel_def map_nth)

lemma pick_all: "ncells c = n \<Longrightarrow> pick [0 ..< n] c = c"
  by (cases c) (auto simp: ncells_def sel_all)

lemma pick_all_stride1: "ncells c = n \<Longrightarrow> pick (map (\<lambda>i. i * Suc 0) [0 ..< n]) c = c"
  by (cases c) (auto simp: ncells_def sel_all_stride1 simp del: mult_Suc_right)

section \<open>Text that is stored as text\<close>

text \<open>
  Claim C9. For every stored array of the unicode-text kind, of any shape,
  \<open>materialize_attr_values\<close> returns the object array of the same shape whose elements
  are the texts of the input as they are read from it. The result does not depend on
  the table of character references: nothing is unescaped on this path, so a text such
  as \<open>&amp;\<close> comes back as it is. A scalar text comes back as the same scalar text.
\<close>

theorem materialize_text_unchanged:
  "materialize_attr_values L (NDArray \<lparr>shape = sh, cells = StrCells ss\<rparr>)
     = Inr (NDArray \<lparr>shape = sh, cells = ObjectCells (items (StrCells ss))\<rparr>)
   \<and> materialize_attr_values L (Obj (PyStr s)) = Inr (Obj (PyStr (rstrip_nul s)))"
  by (simp add: materialize_attr_values_def issubdtype_def and_then_def astype_str_text
      rstrip_nul_idem wrap_scalar_def np_array_def array1_def ncells_def index0_def
      iter_ndarray_def)

theorem materialize_text_unchanged_witness:
  "materialize_attr_values example_lib (NDArray \<lparr>shape = [1], cells = StrCells [text_of ''&amp;'']\<rparr>)
     = Inr (NDArray \<lparr>shape = [1], cells = ObjectCells [PyStr (text_of ''&amp;'')]\<rparr>)"
  using materialize_text_unchanged [of example_lib "[1]" "[text_of ''&amp;'']" "[]"]
  by (simp add: str_defs)

section \<open>The shape rule of the Shape Coercer\<close>

text \<open>
  The rule as the Shape Coercer applies it to a \<open>numpy.matrix\<close> whose cells fill its
  shape: one row gives the elements of the row, otherwise one column gives the elements
  of the column, in order, and any other shape is rejected.
\<close>

lemma matrix_shape_rule:
  assumes "wf_matrix m"
  shows "normalize_attr_array L (Matrix m) =
           (if nrows m = 1 then Inr \<lparr>shape = [ncols m], cells = mcells m\<rparr>
            else if ncols m = 1 then Inr \<lparr>shape = [nrows m], cells = mcells m\<rparr>
            else Inl (ValueError ''Attribute values must be 1-dimensional.''))"
  using assms
  by (auto simp: wf_matrix_def matrix_row0_def matrix_col0_def pick_all pick_all_stride1)

text \<open>
  Claim C3. The claim asks that a two-dimensional dense array with no axis of length 1
  is rejected. The Shape Coercer returns every \<open>ndarray\<close> as it is, whatever its shape:
  the array of shape \<open>(2, 3)\<close> passes through \<open>normalize_attr_array\<close> and
  \<open>normalize_attr_values\<close> unchanged, where the \<open>numpy.matrix\<close> of the same shape and cells
  is rejected with the \<open>ValueError\<close> of the message \<open>Attribute values must be
  1-dimensional.\<close>. A sparse array of that shape, whose dense form is an \<open>ndarray\<close>,
  passes unchanged as well.
\<close>

theorem dense_2d_not_rejected:
  "normalize_attr_array L (Val (NDArray a)) = Inr a
   \<and> normalize_attr_values L
       (Val (NDArray \<lparr>shape = [2, 3], cells = IntCells Int64 [1, 2, 3, 4, 5, 6]\<rparr>)) False
     = (Inr (NDArray \<lparr>shape = [2, 3], cells = IntCells Int64 [1, 2, 3, 4, 5, 6]\<rparr>), [])
   \<and> normalize_attr_values L
       (Matrix \<lparr>nrows = 2, ncols = 3, mcells = IntCells Int64 [1, 2, 3, 4, 5, 6]\<rparr>) False
     = (Inl (ValueError ''Attribute values must be 1-dimensional.''), [])
   \<and> normalize_attr_values L (SparseArray [2, 3] (NumInt Int64 [1, 2, 3, 4, 5, 6])) False
     = (Inr (NDArray \<lparr>shape = [2, 3], cells = IntCells Int64 [1, 2, 3, 4, 5, 6]\<rparr>), [])"
  by (simp add: normalize_attr_values_def issubdtype_def)

section \<open>Inputs that are no array-like container\<close>

text \<open>
  Claim C4, as amended. For every input that is neither a list, a tuple, an array, a
  matrix nor a sparse matrix, the Shape Coercer fails with \<open>ValueError\<close> and the message
  \<open>Argument must be a list, tuple, numpy matrix, numpy ndarray or sparse matrix.\<close>; when
  the input is not a scalar either, \<open>normalize_attr_values\<close> fails with the same error.
\<close>

theorem unsupported_input_value_error:
  "normalize_attr_array L (Val (Obj x))
     = Inl (ValueError ''Argument must be a list, tuple, numpy matrix, numpy ndarray or sparse matrix.'')
   \<and> (\<not> isscalar_obj x \<longrightarrow>
        normalize_attr_values L (Val (Obj x)) u
          = (Inl (ValueError ''Argument must be a list, tuple, numpy matrix, numpy ndarray or sparse matrix.''), []))"
  by (simp add: normalize_attr_values_def)

theorem unsupported_input_value_error_witness:
  "\<not> isscalar_obj PyNone
   \<and> normalize_attr_values example_lib (Val (Obj PyNone)) False
     = (Inl (ValueError ''Argument must be a list, tuple, numpy matrix, numpy ndarray or sparse matrix.''), [])"
  using unsupported_input_value_error [of example_lib PyNone False]
  by simp

text \<open>The exception raised for a dictionary is not a \<open>TypeError\<close>.\<close>

theorem unsupported_input_counterexample:
  "\<not> np_isscalar (Val (Obj (PyObject ''dict'' (text_of ''{}''))))
   \<and> fst (normalize_attr_values example_lib (Val (Obj (PyObject ''dict'' (text_of ''{}'')))) False)
       \<noteq> Inl TypeError
   \<and> normalize_attr_array example_lib (Val (Obj (PyObject ''dict'' (text_of ''{}''))))
       \<noteq> Inl TypeError"
  by (simp add: normalize_attr_values_def)

section \<open>Element kinds that the dispatch does not name\<close>

text \<open>
  Claim C8. The claim asks for a \<open>ValueError\<close> on an array whose element kind is none of
  integer, floating, boolean, text and byte string. The dispatch of
  \<open>normalize_attr_values\<close> has no branch for such a kind: a complex array is returned as
  it is, with its complex dtype, and so is an array of dates. The Text Encoder, called on
  the complex array, does end its own dispatch with the \<open>ValueError\<close>.
\<close>

theorem complex_array_not_rejected:
  "normalize_attr_values L (Val (NDArray \<lparr>shape = [1], cells = ComplexCells [''(1+2j)'']\<rparr>)) False
     = (Inr (NDArray \<lparr>shape = [1], cells = ComplexCells [''(1+2j)'']\<rparr>), [])
   \<and> normalize_attr_values L
       (Val (NDArray \<lparr>shape = [1], cells = OtherCells ''datetime64[D]'' [''2020-01-01'']\<rparr>)) False
     = (Inr (NDArray \<lparr>shape = [1], cells = OtherCells ''datetime64[D]'' [''2020-01-01'']\<rparr>), [])
   \<and> normalize_attr_strings L \<lparr>shape = [1], cells = ComplexCells [''(1+2j)'']\<rparr>
     = (Inl (ValueError ''String values must be object, ascii or unicode.''), [])"
  by (simp add: normalize_attr_values_def normalize_attr_strings_def issubdtype_def)

section \<open>Facts about strings and arrays\<close>

lemma decimal_small: "n < 10 \<Longrightarrow> decimal n = [48 + n]"
  by (simp add: decimal.simps [of n])

lemma decimal_digits: "c \<in> set (decimal n) \<Longrightarrow> 48 \<le> c \<and> c \<le> 57"
proof (induction n rule: decimal.induct)
  case (1 n)
  show ?case
  proof (cases "n < 10")
    case True
    with "1.prems" show ?thesis by (simp add: decimal.simps [of n])
  next
    case False
    with "1.prems" "1.IH" show ?thesis
      by (auto simp: decimal.simps [of n])
  qed
qed

lemma is_ascii_decimal: "is_ascii (decimal n)"
  using decimal_digits [of _ n] by (fastforce simp: is_ascii_def list_all_iff)

lemma is_ascii_pystr_int: "is_ascii (pystr (PyInt n))"
  using is_ascii_decimal by (simp add: is_ascii_def)

lemma rstrip_nul_id: "\<not> ends_with_nul s \<Longrightarrow> rstrip_nul s = s"
  by (cases s rule: rev_cases) (auto simp: ends_with_nul_def rstrip_nul_def)

lemma of_char_char_of_ascii: "n < 128 \<Longrightarrow> (of_char (char_of (n::nat)) :: nat) = n"
  by simp

lemma char_of_zero_iff: "n < 128 \<Longrightarrow> ((of_char (char_of (n::nat)) :: nat) = 0) = (n = 0)"
  using of_char_char_of_ascii [of n] by (simp only:)

lemma decode_encode_ascii: "is_ascii s \<Longrightarrow> map of_char (map char_of s) = s"
  by (induction s) (auto simp: is_ascii_def)

lemma decode_encode_ascii_comp: "is_ascii s \<Longrightarrow> map (of_char \<circ> char_of) s = s"
  using decode_encode_ascii [of s] by simp

lemma encode_ascii_text: "is_ascii s \<Longrightarrow> encode_xmlcharrefreplace s = map char_of s"
  by (induction s) (auto simp: is_ascii_def encode_xmlcharrefreplace_def encode_char_def)

lemma ascii_bytes_char_of: "is_ascii s \<Longrightarrow> ascii_bytes (map char_of s)"
  by (induction s) (auto simp: is_ascii_def ascii_bytes_def)

lemma rstrip_nul_bytes_char_of:
  assumes "is_ascii s"
  shows "rstrip_nul_bytes (map char_of s) = map char_of (rstrip_nul s)"
proof -
  have "dropWhile (\<lambda>c. (of_char c :: nat) = 0) (map char_of (rev s))
          = map char_of (dropWhile (\<lambda>n. n = 0) (rev s))"
    unfolding dropWhile_map
    by (rule arg_cong [where f = "map char_of"], rule dropWhile_cong)
       (use assms in \<open>auto simp: is_ascii_def list_all_iff char_of_zero_iff simp del: of_char_of\<close>)
  then show ?thesis
    by (simp add: rstrip_nul_bytes_def rstrip_nul_def rev_map)
qed

lemma np_array_object_scalars:
  "np_array_object (map (\<lambda>x. Scalar (f x)) xs) = \<lparr>shape = [length xs], cells = ObjectCells (map f xs)\<rparr>"
  by (cases xs) (auto simp: np_array_object_def comp_def)

lemma np_array_strs: "xs \<noteq> [] \<Longrightarrow> np_array L (map PyStr xs) = Inr (array1 (StrCells xs))"
  by (cases xs) (auto simp: np_array_def list_ex_iff comp_def sequence_Inr)

lemma np_array_bytes: "bs \<noteq> [] \<Longrightarrow> np_array L (map PyBytes bs) = Inr (array1 (BytesCells bs))"
  by (cases bs) (auto simp: np_array_def list_ex_iff comp_def sequence_Inr)

lemma np_array_string_ascii:
  "\<forall>s\<in>set ss. is_ascii s \<Longrightarrow> np_array_string ss = Inr (array1 (BytesCells (map (map char_of) ss)))"
proof -
  assume "\<forall>s\<in>set ss. is_ascii s"
  then have "sequence (map encode_ascii_strict ss) = Inr (map (map char_of) ss)"
    by (induction ss) (auto simp: encode_ascii_strict_def)
  then show ?thesis by (simp add: np_array_string_def)
qed

lemma list_all_elt_is_str: "list_all elt_is_str (map Scalar xs) = list_all is_str xs"
  by (induction xs) auto

lemma list_all_elt_is_npbytes: "list_all elt_is_npbytes (map Scalar xs) = list_all is_npbytes xs"
  by (induction xs) auto

lemma kind_of_pick: "kind_of (pick idx c) = kind_of c"
  by (cases c) auto

lemma matrix_rows_single:
  "wf_matrix m \<Longrightarrow> nrows m = 1 \<Longrightarrow> matrix_rows m = [m]"
  by (simp add: matrix_rows_def wf_matrix_def pick_all)

text \<open>The Text Encoder on a non-empty one-dimensional array of text.\<close>

lemma normalize_strings_text:
  assumes "xs \<noteq> []"
  shows "normalize_attr_strings L (array1 (StrCells xs))
           = (Inr (array1 (BytesCells (map (\<lambda>s. encode_xmlcharrefreplace (rstrip_nul s)) xs))), [])"
proof -
  have "np_array L (map PyBytes (map (\<lambda>s. encode_xmlcharrefreplace (rstrip_nul s)) xs))
          = Inr (array1 (BytesCells (map (\<lambda>s. encode_xmlcharrefreplace (rstrip_nul s)) xs)))"
    using assms by (intro np_array_bytes) simp
  then show ?thesis
    by (simp add: normalize_attr_strings_def issubdtype_def array1_def ncells_def
        iter_ndarray_def and_then_def comp_def sequence_Inr)
qed

text \<open>The read path on a one-dimensional array of ASCII byte strings.\<close>

lemma astype_str_bytes:
  assumes "\<forall>b\<in>set bs. ascii_bytes (rstrip_nul_bytes b)"
  shows "astype_str \<lparr>shape = sh, cells = BytesCells bs\<rparr>
           = Inr \<lparr>shape = sh, cells = StrCells (map (\<lambda>b. map of_char (rstrip_nul_bytes b)) bs)\<rparr>"
proof -
  have "sequence (map (\<lambda>b. to_text (NpBytes (rstrip_nul_bytes b))) bs)
          = Inr (map (\<lambda>b. map of_char (rstrip_nul_bytes b)) bs)"
    using assms by (induction bs) (auto simp: decode_ascii_strict_def)
  then show ?thesis by (simp add: astype_str_def comp_def)
qed

lemma materialize_bytes_ascii:
  assumes "\<forall>b\<in>set bs. ascii_bytes (rstrip_nul_bytes b)"
  shows "materialize_attr_values L (NDArray \<lparr>shape = [n], cells = BytesCells bs\<rparr>)
           = Inr (NDArray \<lparr>shape = [length bs], cells = ObjectCells
               (map (\<lambda>b. PyStr (html_unescape (html5 L) (rstrip_nul (map of_char (rstrip_nul_bytes b))))) bs)\<rparr>)"
  using assms
  by (simp add: materialize_attr_values_def issubdtype_def hasattr_decode_def unescape_all_def
      astype_str_bytes and_then_def iter_ndarray_def comp_def sequence_Inr np_array_object_scalars)

section \<open>Round trip of ASCII text\<close>

text \<open>
  Claim C1, as amended. For every list of texts in which every character is in the 7-bit
  ASCII range, no text contains an ampersand and no text ends with the NUL character,
  normalization succeeds without a log record, and materializing its result gives an
  array whose elements are the texts of the list, in order.
\<close>

theorem roundtrip_ascii_no_ampersand:
  assumes "\<forall>s\<in>set xs. is_ascii s \<and> 38 \<notin> set s \<and> \<not> ends_with_nul s"
  shows "\<exists>v. normalize_attr_values L (Val (PyList (map PyStr xs))) False = (Inr v, [])
           \<and> (\<exists>r. materialize_attr_values L v = Inr (NDArray r)
                 \<and> items (cells r) = map PyStr xs)"
proof (cases "xs = []")
  case True
  then show ?thesis
    by (simp add: prog_defs np_defs)
next
  case False
  let ?bs = "map (\<lambda>s. encode_xmlcharrefreplace (rstrip_nul s)) xs"
  have enc: "encode_xmlcharrefreplace s = map char_of s" if "s \<in> set xs" for s
    using that assms by (simp add: encode_ascii_text)
  have strip: "rstrip_nul_bytes (map char_of s) = map char_of s" if "s \<in> set xs" for s
    using that assms by (simp add: rstrip_nul_bytes_char_of rstrip_nul_id)
  have norm: "normalize_attr_values L (Val (PyList (map PyStr xs))) False
                = (Inr (NDArray (array1 (BytesCells ?bs))), [])"
    using False
    by (simp add: normalize_attr_values_def np_array_strs normalize_strings_text)
       (simp add: issubdtype_def array1_def)
  have asc: "\<forall>b\<in>set ?bs. ascii_bytes (rstrip_nul_bytes b)"
    using assms by (auto simp: rstrip_nul_id enc strip ascii_bytes_char_of)
  have one: "html_unescape (html5 L)
               (rstrip_nul (map of_char (rstrip_nul_bytes (encode_xmlcharrefreplace (rstrip_nul s))))) = s"
    if "s \<in> set xs" for s
  proof -
    from that assms have s: "is_ascii s" "38 \<notin> set s" "\<not> ends_with_nul s" by auto
    have "rstrip_nul (map of_char (rstrip_nul_bytes (encode_xmlcharrefreplace (rstrip_nul s)))) = s"
      using s by (simp add: enc [OF that] strip [OF that] decode_encode_ascii_comp rstrip_nul_id)
    with s show ?thesis by (simp add: html_unescape_def)
  qed
  have restored:
    "map (\<lambda>b. PyStr (html_unescape (html5 L) (rstrip_nul (map of_char (rstrip_nul_bytes b))))) ?bs
       = map PyStr xs"
    by (simp add: comp_def one cong: map_cong)
  have "materialize_attr_values L (NDArray (array1 (BytesCells ?bs)))
          = Inr (NDArray \<lparr>shape = [length ?bs], cells = ObjectCells (map PyStr xs)\<rparr>)"
    unfolding array1_def using materialize_bytes_ascii [OF asc] restored by simp
  with norm show ?thesis by simp
qed

theorem roundtrip_ascii_no_ampersand_witness:
  "is_ascii (text_of ''abc'') \<and> 38 \<notin> set (text_of ''abc'') \<and> \<not> ends_with_nul (text_of ''abc'')
   \<and> (\<exists>v. normalize_attr_values example_lib (Val (PyList (map PyStr [text_of ''abc'']))) False = (Inr v, [])
           \<and> (\<exists>r. materialize_attr_values example_lib v = Inr (NDArray r)
                 \<and> items (cells r) = map PyStr [text_of ''abc'']))"
  using roundtrip_ascii_no_ampersand [of "[text_of ''abc'']" example_lib]
  by (simp add: str_defs ends_with_nul_def)

text \<open>
  The claim as stated fails on the ASCII text \<open>&#65;\<close>: it is stored as it is, and the read
  path unescapes it to the letter \<open>A\<close>.
\<close>

theorem roundtrip_counterexample:
  "is_ascii (text_of ''&#65;'')
   \<and> normalize_attr_values example_lib (Val (PyList [PyStr (text_of ''&#65;'')])) False
       = (Inr (NDArray \<lparr>shape = [1], cells = BytesCells [''&#65;'']\<rparr>), [])
   \<and> materialize_attr_values example_lib (NDArray \<lparr>shape = [1], cells = BytesCells [''&#65;'']\<rparr>)
       = Inr (NDArray \<lparr>shape = [1], cells = ObjectCells [PyStr (text_of ''A'')]\<rparr>)
   \<and> text_of ''A'' \<noteq> text_of ''&#65;''"
  by (simp add: prog_defs np_defs str_defs html_defs)

section \<open>Object arrays of mixed elements\<close>

text \<open>
  Claim C5, as amended. For every one-dimensional object array whose elements are
  neither all text nor all numpy byte strings, and whose elements all print as ASCII
  text, normalization does not raise: it returns the byte-string array of the printed
  forms of the elements, in order, and emits one debug record. The list \<open>[1, 'a', 2.5]\<close>
  itself is made an array of the text kind by \<open>numpy.array\<close>, which prints its numbers; it
  is normalized to the byte strings \<open>1\<close>, \<open>a\<close> and \<open>2.5\<close>, and no record is emitted.
\<close>

theorem mixed_objects_stringified:
  "(\<not> list_all is_str xs \<and> \<not> list_all is_npbytes xs \<and> (\<forall>x\<in>set xs. is_ascii (pystr x)) \<longrightarrow>
      normalize_attr_values L (Val (NDArray \<lparr>shape = [n], cells = ObjectCells xs\<rparr>)) False
        = (Inr (NDArray \<lparr>shape = [length xs], cells = BytesCells (map (\<lambda>x. map char_of (pystr x)) xs)\<rparr>),
           [Debug (map (\<lambda>x. elt_type (Scalar x)) xs)]))
   \<and> normalize_attr_values L (Val (PyList [PyInt 1, PyStr (text_of ''a''), PyFloat ''2.5''])) False
        = (Inr (NDArray \<lparr>shape = [3], cells = BytesCells [''1'', ''a'', ''2.5'']\<rparr>), [])"
proof (intro conjI impI)
  assume h: "\<not> list_all is_str xs \<and> \<not> list_all is_npbytes xs \<and> (\<forall>x\<in>set xs. is_ascii (pystr x))"
  then have "np_array_string (map pystr xs) = Inr (array1 (BytesCells (map (map char_of) (map pystr xs))))"
    by (intro np_array_string_ascii) simp
  with h show "normalize_attr_values L (Val (NDArray \<lparr>shape = [n], cells = ObjectCells xs\<rparr>)) False
        = (Inr (NDArray \<lparr>shape = [length xs], cells = BytesCells (map (\<lambda>x. map char_of (pystr x)) xs)\<rparr>),
           [Debug (map (\<lambda>x. elt_type (Scalar x)) xs)])"
    by (simp add: normalize_attr_values_def normalize_attr_strings_def issubdtype_def
        iter_ndarray_def comp_def list_all_elt_is_str list_all_elt_is_npbytes array1_def ncells_def
        del: elt_type.simps)
next
  show "normalize_attr_values L (Val (PyList [PyInt 1, PyStr (text_of ''a''), PyFloat ''2.5''])) False
        = (Inr (NDArray \<lparr>shape = [3], cells = BytesCells [''1'', ''a'', ''2.5'']\<rparr>), [])"
    by (simp add: prog_defs np_defs str_defs decimal_small)
qed

theorem mixed_objects_stringified_witness:
  "normalize_attr_values example_lib
     (Val (NDArray \<lparr>shape = [3], cells = ObjectCells [PyInt 1, PyStr (text_of ''a''), PyNone]\<rparr>)) False
     = (Inr (NDArray \<lparr>shape = [3], cells = BytesCells [''1'', ''a'', ''None'']\<rparr>),
        [Debug [''<class 'int'>'', ''<class 'str'>'', ''<class 'NoneType'>'']])"
  using mixed_objects_stringified [of "[PyInt 1, PyStr (text_of ''a''), PyNone]" example_lib 3]
  by (simp add: str_defs decimal_small)

text \<open>
  The claim as stated fails twice: its own example emits no record, and an object array
  that holds a text with a character outside ASCII next to a number raises
  \<open>UnicodeEncodeError\<close>, after the record has been emitted.
\<close>

theorem mixed_objects_counterexample:
  "normalize_attr_values example_lib (Val (PyList [PyInt 1, PyStr (text_of ''a''), PyFloat ''2.5''])) False
     = (Inr (NDArray \<lparr>shape = [3], cells = BytesCells [''1'', ''a'', ''2.5'']\<rparr>), [])
   \<and> normalize_attr_values example_lib
       (Val (NDArray \<lparr>shape = [2], cells = ObjectCells [PyInt 1, PyStr [233]]\<rparr>)) False
     = (Inl UnicodeEncodeError, [Debug [''<class 'int'>'', ''<class 'str'>'']])"
  by (simp add: prog_defs np_defs str_defs decimal_small)

section \<open>The fallback of the read path\<close>

text \<open>
  On a scalar byte string with a byte outside ASCII the fallback does what its comment
  says: the result is the scalar without any occurrence of the two bytes \<open>0xC2 0xA0\<close>.
\<close>

lemma nbsp_fallback_scalar:
  assumes "\<not> ascii_bytes (rstrip_nul_bytes b)"
  shows "materialize_attr_values L (Obj (PyBytes b))
           = Inr (Obj (PyBytes (replace_nbsp (rstrip_nul_bytes b))))"
    and "materialize_attr_values L (Obj (NpBytes b))
           = Inr (Obj (PyBytes (replace_nbsp (rstrip_nul_bytes b))))"
  using assms by (simp_all add: prog_defs np_defs decode_ascii_strict_def)

text \<open>
  Claim C6. The claim asks that the read path never raises on a byte-string or object
  input whose unescaping raises, and that it returns the value with the two bytes
  removed. The \<open>except\<close> clause recovers a value only when \<open>a[0]\<close> is a numpy byte string:
  on an object array that holds a Python byte string with the two bytes nothing is
  recovered and the result is \<open>None\<close>; on a 0-d byte-string array \<open>a[0]\<close> raises
  \<open>IndexError\<close> out of the clause; on an array of two elements the result is a Python
  list of the first element alone. The scalar byte string is recovered.
\<close>

theorem nbsp_fallback_misfires:
  "materialize_attr_values L
       (NDArray \<lparr>shape = [1], cells = ObjectCells [PyBytes [CHR ''x'', CHR 0xC2, CHR 0xA0, CHR ''y'']]\<rparr>)
     = Inr (Obj PyNone)
   \<and> materialize_attr_values L
       (NDArray \<lparr>shape = [], cells = BytesCells [[CHR ''x'', CHR 0xC2, CHR 0xA0, CHR ''y'']]\<rparr>)
     = Inl IndexError
   \<and> materialize_attr_values L
       (NDArray \<lparr>shape = [2], cells = BytesCells [''ok'', [CHR 0xFF]]\<rparr>)
     = Inr (PyList [PyBytes ''ok''])
   \<and> materialize_attr_values L (Obj (PyBytes [CHR ''x'', CHR 0xC2, CHR 0xA0, CHR ''y'']))
     = Inr (Obj (PyBytes ''xy''))"
  by (simp add: prog_defs np_defs str_defs)

section \<open>Scalars stay scalars\<close>

lemma normalize_scalar:
  assumes "isscalar_obj x"
  shows "\<exists>y log. normalize_attr_values L (Val (Obj x)) u = (Inr (Obj y), log) \<and> isscalar_obj y"
proof (cases x)
  case (PyBool b)
  then show ?thesis by (simp add: prog_defs np_defs)
next
  case (PyInt n)
  then show ?thesis
    using is_ascii_pystr_int [of n]
    by (cases u) (simp_all add: prog_defs np_defs encode_ascii_strict_def del: pystr.simps)
next
  case (PyFloat f)
  then show ?thesis by (simp add: prog_defs np_defs)
next
  case (PyComplex c)
  then show ?thesis by (simp add: prog_defs np_defs)
next
  case (PyStr s)
  then show ?thesis by (cases u) (simp_all add: prog_defs np_defs)
next
  case (PyBytes b)
  then show ?thesis by (cases u) (simp_all add: prog_defs np_defs)
next
  case (NpBytes b)
  then show ?thesis by (cases u) (simp_all add: prog_defs np_defs)
next
  case PyNone
  with assms show ?thesis by simp
next
  case (PyObject t s)
  with assms show ?thesis by simp
qed

lemma materialize_scalar:
  assumes "isscalar_obj x"
  shows "\<exists>y. materialize_attr_values L (Obj x) = Inr (Obj y) \<and> isscalar_obj y"
proof (cases x)
  case (PyBool b)
  then show ?thesis by (simp add: prog_defs np_defs)
next
  case (PyInt n)
  then show ?thesis
    by (simp add: prog_defs np_defs del: pystr.simps)
next
  case (PyFloat f)
  then show ?thesis by (simp add: prog_defs np_defs)
next
  case (PyComplex c)
  then show ?thesis by (simp add: prog_defs np_defs)
next
  case (PyStr s)
  then show ?thesis by (simp add: prog_defs np_defs)
next
  case (PyBytes b)
  then show ?thesis by (simp add: prog_defs np_defs decode_ascii_strict_def)
next
  case (NpBytes b)
  then show ?thesis by (simp add: prog_defs np_defs decode_ascii_strict_def)
next
  case PyNone
  with assms show ?thesis by simp
next
  case (PyObject t s)
  with assms show ?thesis by simp
qed

lemma hello_normalize:
  "normalize_attr_values L (Val (Obj (PyStr (text_of ''hello'')))) False = (Inr (Obj (NpBytes ''hello'')), [])"
  by (simp add: prog_defs np_defs str_defs)

lemma hello_materialize:
  "materialize_attr_values L (Obj (NpBytes ''hello'')) = Inr (Obj (PyStr (text_of ''hello'')))"
  by (simp add: prog_defs np_defs str_defs html_unescape_def)

text \<open>
  Claim C7. For every scalar input and either setting of the object-string option,
  \<open>normalize_attr_values\<close> returns a scalar and not an array, and
  \<open>materialize_attr_values\<close> of a scalar returns a scalar; neither raises. The text
  \<open>hello\<close> is normalized to the scalar byte string \<open>hello\<close>, which is materialized to the
  text \<open>hello\<close>.
\<close>

theorem scalar_preserved:
  "(isscalar_obj x \<longrightarrow>
      (\<exists>y log. normalize_attr_values L (Val (Obj x)) u = (Inr (Obj y), log) \<and> isscalar_obj y)
      \<and> (\<exists>y. materialize_attr_values L (Obj x) = Inr (Obj y) \<and> isscalar_obj y))
   \<and> normalize_attr_values L (Val (Obj (PyStr (text_of ''hello'')))) False
        = (Inr (Obj (NpBytes ''hello'')), [])
   \<and> materialize_attr_values L (Obj (NpBytes ''hello'')) = Inr (Obj (PyStr (text_of ''hello'')))"
  using normalize_scalar [of x L u] materialize_scalar [of x L] hello_normalize [of L]
    hello_materialize [of L]
  by blast

theorem scalar_preserved_witness:
  "isscalar_obj (PyInt 5)
   \<and> (\<exists>y log. normalize_attr_values example_lib (Val (Obj (PyInt 5))) False = (Inr (Obj y), log)
         \<and> isscalar_obj y)
   \<and> (\<exists>y. materialize_attr_values example_lib (Obj (PyInt 5)) = Inr (Obj y) \<and> isscalar_obj y)"
  using scalar_preserved [of "PyInt 5" example_lib False]
  by simp

section \<open>The object-string option\<close>

lemma kind_of_dense_cells: "kind_of (dense_cells d) \<in> {KBool, KInt, KFloat, KComplex}"
  by (cases d) auto

lemma sparse_option_no_effect:
  "normalize_attr_values L (SparseMatrix s) True = normalize_attr_values L (SparseMatrix s) False"
  "normalize_attr_values L (SparseArray sh d) True = normalize_attr_values L (SparseArray sh d) False"
  using kind_of_dense_cells [of "sdata s"] kind_of_dense_cells [of d]
  by (auto simp: normalize_attr_values_def issubdtype_def matrix_row0_def matrix_col0_def
      kind_of_pick)

lemma object_strings_list:
  assumes "np_array L xs = Inr arr" "kind_of (cells arr) \<in> {KBytes, KStr, KObject}"
  shows "normalize_attr_values L (Val (PyList xs)) True
           = (Inr (NDArray \<lparr>shape = [length xs], cells = ObjectCells (map (\<lambda>x. PyStr (pystr x)) xs)\<rparr>), [])"
    and "normalize_attr_values L (Val (PyTuple xs)) True
           = (Inr (NDArray \<lparr>shape = [length xs], cells = ObjectCells (map (\<lambda>x. PyStr (pystr x)) xs)\<rparr>), [])"
  using assms np_array_object_scalars [of "\<lambda>x. PyStr (pystr x)" xs]
  by (auto simp: normalize_attr_values_def issubdtype_def and_then_def comp_def)

lemma object_strings_array:
  assumes "kind_of c \<in> {KBytes, KStr, KObject}"
  shows "normalize_attr_values L (Val (NDArray \<lparr>shape = [n], cells = c\<rparr>)) True
           = (Inr (NDArray \<lparr>shape = [length (items c)],
                 cells = ObjectCells (map (\<lambda>x. PyStr (pystr x)) (items c))\<rparr>), [])"
  using assms np_array_object_scalars [of "\<lambda>x. PyStr (pystr x)" "items c"]
  by (auto simp: normalize_attr_values_def issubdtype_def and_then_def comp_def iter_ndarray_def)

lemma object_strings_matrix:
  assumes "kind_of (mcells m) \<in> {KBytes, KStr, KObject}" "nrows m = 1 \<or> ncols m = 1"
  shows "normalize_attr_values L (Matrix m) True
           = (Inr (NDArray \<lparr>shape = [nrows m], cells = ObjectCells
               (map (\<lambda>i. PyStr (matrix_str L
                      \<lparr>nrows = 1, ncols = ncols m,
                       mcells = pick [i * ncols m ..< (i + 1) * ncols m] (mcells m)\<rparr>))
                    [0 ..< nrows m])\<rparr>), [])"
proof -
  let ?row = "\<lambda>i. \<lparr>nrows = 1, ncols = ncols m,
                     mcells = pick [i * ncols m ..< (i + 1) * ncols m] (mcells m)\<rparr>"
  have obj: "np_array_object (map (\<lambda>i. Scalar (PyStr (matrix_str L (?row i)))) [0 ..< nrows m])
          = \<lparr>shape = [nrows m],
             cells = ObjectCells (map (\<lambda>i. PyStr (matrix_str L (?row i))) [0 ..< nrows m])\<rparr>"
    using np_array_object_scalars [of "\<lambda>i. PyStr (matrix_str L (?row i))" "[0 ..< nrows m]"]
    by simp
  define arr where "arr = (if nrows m = 1 then matrix_row0 m else matrix_col0 m)"
  have arr: "normalize_attr_array L (Matrix m) = Inr arr"
    using assms(2) by (auto simp: arr_def)
  have k: "kind_of (cells arr) \<in> {KBytes, KStr, KObject}"
    using assms(1) by (simp add: arr_def matrix_row0_def matrix_col0_def kind_of_pick)
  have it: "iter_strs L (Matrix m) = Inr (map (\<lambda>i. matrix_str L (?row i)) [0 ..< nrows m])"
    by (simp add: matrix_rows_def comp_def)
  show ?thesis
    using k obj
    by (auto simp: normalize_attr_values_def arr it issubdtype_def and_then_def comp_def
        simp del: normalize_attr_array.simps iter_strs.simps)
qed

lemma object_strings_matrix_row:
  assumes "wf_matrix m" "nrows m = 1" "kind_of (mcells m) \<in> {KBytes, KStr, KObject}"
  shows "normalize_attr_values L (Matrix m) True
           = (Inr (NDArray \<lparr>shape = [1], cells = ObjectCells [PyStr (matrix_str L m)]\<rparr>), [])"
proof -
  have "\<lparr>nrows = 1, ncols = ncols m, mcells = pick [0 ..< ncols m] (mcells m)\<rparr> = m"
    using assms by (simp add: wf_matrix_def pick_all)
  then show ?thesis
    using object_strings_matrix [of m L] assms by simp
qed

lemma object_strings_scalar:
  "normalize_attr_values L (Val (Obj (PyStr s))) True = (Inr (Obj (PyStr (rstrip_nul s))), [])"
  "normalize_attr_values L (Val (Obj (PyBytes b))) True
     = (Inr (Obj (PyStr (bytes_repr (rstrip_nul_bytes b)))), [])"
  by (simp_all add: prog_defs np_defs)

lemma sparse_never_text:
  assumes "normalize_attr_array L (SparseMatrix sp) = Inr arr
           \<or> normalize_attr_array L (SparseArray sh d) = Inr arr"
  shows "kind_of (cells arr) \<notin> {KBytes, KStr, KObject}"
  using assms kind_of_dense_cells [of "sdata sp"] kind_of_dense_cells [of d]
  by (auto simp: matrix_row0_def matrix_col0_def kind_of_pick split: if_splits)

lemma object_strings_subarrays:
  assumes "kind_of (cells a) \<in> {KBytes, KStr, KObject}" "shape a = n # k # rest"
  shows "normalize_attr_values L (Val (NDArray a)) True
           = (Inr (NDArray \<lparr>shape = [n], cells = ObjectCells
               (map (\<lambda>i. PyStr (array_str L (sub_array a i))) [0 ..< n])\<rparr>), [])"
  using assms np_array_object_scalars [of "\<lambda>i. PyStr (array_str L (sub_array a i))" "[0 ..< n]"]
  by (auto simp: normalize_attr_values_def issubdtype_def and_then_def comp_def iter_ndarray_def)

text \<open>
  Claim C10. When the object-string option is set and the coerced array is of the text,
  byte-string or object kind, the result is the object array of the printed forms of
  the elements that iterating the original input yields, not of the elements of the
  coerced array: the elements of a list or of a tuple, the scalars of a one-dimensional
  array, the rows of a matrix, each a matrix of one row, and the wrapped scalar itself.
  So for a matrix of one row the result has a single element, the printed form of the
  whole row. A sparse container holds numbers only: its coerced array is never of one of
  these kinds.
\<close>

theorem object_strings_from_original_input:
  "(np_array L xs = Inr arr \<and> kind_of (cells arr) \<in> {KBytes, KStr, KObject} \<longrightarrow>
      normalize_attr_values L (Val (PyList xs)) True
        = (Inr (NDArray \<lparr>shape = [length xs], cells = ObjectCells (map (\<lambda>x. PyStr (pystr x)) xs)\<rparr>), [])
      \<and> normalize_attr_values L (Val (PyTuple xs)) True
        = (Inr (NDArray \<lparr>shape = [length xs], cells = ObjectCells (map (\<lambda>x. PyStr (pystr x)) xs)\<rparr>), []))
   \<and> (kind_of c \<in> {KBytes, KStr, KObject} \<longrightarrow>
        normalize_attr_values L (Val (NDArray \<lparr>shape = [n], cells = c\<rparr>)) True
          = (Inr (NDArray \<lparr>shape = [length (items c)],
                cells = ObjectCells (map (\<lambda>x. PyStr (pystr x)) (items c))\<rparr>), []))
   \<and> (kind_of (mcells m) \<in> {KBytes, KStr, KObject} \<and> (nrows m = 1 \<or> ncols m = 1) \<longrightarrow>
        normalize_attr_values L (Matrix m) True
          = (Inr (NDArray \<lparr>shape = [nrows m], cells = ObjectCells
              (map (\<lambda>i. PyStr (matrix_str L
                     \<lparr>nrows = 1, ncols = ncols m,
                      mcells = pick [i * ncols m ..< (i + 1) * ncols m] (mcells m)\<rparr>))
                   [0 ..< nrows m])\<rparr>), []))
   \<and> (wf_matrix m \<and> nrows m = 1 \<and> kind_of (mcells m) \<in> {KBytes, KStr, KObject} \<longrightarrow>
        normalize_attr_values L (Matrix m) True
          = (Inr (NDArray \<lparr>shape = [1], cells = ObjectCells [PyStr (matrix_str L m)]\<rparr>), []))
   \<and> normalize_attr_values L (Val (Obj (PyStr s))) True = (Inr (Obj (PyStr (rstrip_nul s))), [])
   \<and> normalize_attr_values L (Val (Obj (PyBytes b))) True
        = (Inr (Obj (PyStr (bytes_repr (rstrip_nul_bytes b)))), [])
   \<and> (normalize_attr_array L (SparseMatrix sp) = Inr sarr
        \<or> normalize_attr_array L (SparseArray sh d) = Inr sarr \<longrightarrow>
        kind_of (cells sarr) \<notin> {KBytes, KStr, KObject})"
  using object_strings_list [of L xs arr] object_strings_array [of c L n]
    object_strings_matrix [of m L] object_strings_matrix_row [of m L]
    object_strings_scalar(1) [of L s] object_strings_scalar(2) [of L b] sparse_never_text [of L sp sarr sh d]
  by blast

theorem object_strings_from_original_input_witness:
  "normalize_attr_array example_lib (Val (PyList [PyBytes ''a'', PyStr (text_of ''b'')]))
     = Inr \<lparr>shape = [2], cells = StrCells [text_of ''a'', text_of ''b'']\<rparr>
   \<and> normalize_attr_values example_lib (Val (PyList [PyBytes ''a'', PyStr (text_of ''b'')])) True
     = (Inr (NDArray \<lparr>shape = [2], cells = ObjectCells
          [PyStr (text_of [CHR ''b'', CHR 0x27, CHR ''a'', CHR 0x27]), PyStr (text_of ''b'')]\<rparr>), [])
   \<and> normalize_attr_values example_lib (Val (PyTuple [PyBytes ''a'', PyStr (text_of ''b'')])) True
     = (Inr (NDArray \<lparr>shape = [2], cells = ObjectCells
          [PyStr (text_of [CHR ''b'', CHR 0x27, CHR ''a'', CHR 0x27]), PyStr (text_of ''b'')]\<rparr>), [])
   \<and> normalize_attr_values example_lib
       (Val (NDArray \<lparr>shape = [2], cells = BytesCells [''a'', ''b'']\<rparr>)) True
     = (Inr (NDArray \<lparr>shape = [2], cells = ObjectCells
          [PyStr (text_of [CHR ''b'', CHR 0x27, CHR ''a'', CHR 0x27]),
           PyStr (text_of [CHR ''b'', CHR 0x27, CHR ''b'', CHR 0x27])]\<rparr>), [])
   \<and> normalize_attr_values example_lib
       (Matrix \<lparr>nrows = 2, ncols = 1, mcells = StrCells [text_of ''a'', text_of ''b'']\<rparr>) True
     = (Inr (NDArray \<lparr>shape = [2], cells = ObjectCells
          [PyStr (matrix_str example_lib \<lparr>nrows = 1, ncols = 1, mcells = StrCells [text_of ''a'']\<rparr>),
           PyStr (matrix_str example_lib \<lparr>nrows = 1, ncols = 1, mcells = StrCells [text_of ''b'']\<rparr>)]\<rparr>), [])
   \<and> normalize_attr_values example_lib
       (Matrix \<lparr>nrows = 1, ncols = 2, mcells = StrCells [text_of ''a'', text_of ''b'']\<rparr>) True
     = (Inr (NDArray \<lparr>shape = [1], cells = ObjectCells
          [PyStr (matrix_str example_lib
             \<lparr>nrows = 1, ncols = 2, mcells = StrCells [text_of ''a'', text_of ''b'']\<rparr>)]\<rparr>), [])"
  using object_strings_from_original_input
    [where L = example_lib and xs = "[PyBytes ''a'', PyStr (text_of ''b'')]"
       and arr = "\<lparr>shape = [2], cells = StrCells [text_of ''a'', text_of ''b'']\<rparr>"
       and c = "BytesCells [''a'', ''b'']" and n = 2
       and m = "\<lparr>nrows = 2, ncols = 1, mcells = StrCells [text_of ''a'', text_of ''b'']\<rparr>"]
    object_strings_from_original_input
    [where L = example_lib
       and m = "\<lparr>nrows = 1, ncols = 2, mcells = StrCells [text_of ''a'', text_of ''b'']\<rparr>"]
  by (simp add: np_defs str_defs wf_matrix_def bytes_repr_def repr_byte_def sel_def
      upt_conv_Cons)

end
